theory Spec2Isabelle
  imports Complex_Main "HOL-Library.Sublist"
begin

section \<open>The recommendation engine of grec5/recommendation\_engine.py\<close>

text \<open>
  The engine matches a user's needs (a dict from attribute names to quantities) and a
  budget against a list of products, each a dict with a \<open>specs\<close> dict and possibly a
  top-level \<open>price\<close>.

  Modelling conventions.
  \<^item> Python numbers (int and float) are exact rationals: the rounding error of floating
    point arithmetic is not modelled.
  \<^item> A dict is an association list in insertion order, looked up with \<open>map_of\<close>;
    iteration over \<open>items()\<close> is recursion over the list.
  \<^item> Whatever can raise in the source is a value: division is \<open>py_div\<close>, \<open>min\<close> and
    \<open>max\<close> of a sequence are \<open>py_min\<close> and \<open>py_max\<close>, and a function that calls one
    of them returns \<open>py_error + 'a\<close>.
  \<^item> A formatted text is the template chosen together with the values interpolated into
    it, in the order of the f-string; the rendering of a number as text is not modelled.
  \<^item> \<open>self.config\<close> is the argument \<open>cfg\<close> of the methods that only read it, a record
    with every key of the default configuration, so that reading a key of it cannot fail.
    The call of \<open>recommend\<close> is also run on a heap, where \<open>self\<close> is an object.
  \<^item> The functions have the names of the methods, without the leading underscore; the
    body of a \<open>for\<close> loop that has no method of its own is a function named after the
    method, and the local variables keep their names.
\<close>

subsection \<open>Data\<close>

type_synonym pydict = "(string \<times> rat) list"

datatype py_error = ZeroDivisionError | ValueError | AttributeError | TypeError

record score_weights_t =
  usage_match :: rat
  price_advantage :: rat

record thresholds_t =
  budget_tolerance :: rat
  waste_penalty :: rat
  perfect_match_ratio :: rat

record config =
  score_weights :: score_weights_t
  thresholds :: thresholds_t
  max_recommendations :: int

text \<open>A product dict: \<open>specs\<close> and the top-level \<open>price\<close> may each be missing.\<close>

record product =
  name :: string
  specs :: "pydict option"
  price :: "rat option"

text \<open>The clauses of a match reason; \<open>"\<dots>".join(reasons)\<close> is the list of clauses.\<close>

datatype reason =
    NeedFullyMet string rat string rat string
  | NeedAmple string rat string rat string
  | PriceSaves rat rat
  | PriceWithinBudget rat
  | PriceOverBudget rat rat

record recommendation =
  product :: product
  score :: rat
  usage_score :: rat
  price_score :: rat
  match_reason :: "reason list"

datatype suggestion =
    RaiseBudget rat
  | LowerNeed string rat string

record analysis =
  over_budget_products :: "product list"
  insufficient_specs :: "(string \<times> product list) list"
  suggestions :: "suggestion list"

subsection \<open>Python primitives\<close>

definition err_bind :: "py_error + 'a \<Rightarrow> ('a \<Rightarrow> py_error + 'b) \<Rightarrow> py_error + 'b" where
  "err_bind m f = (case m of Inl e \<Rightarrow> Inl e | Inr x \<Rightarrow> f x)"

definition py_div :: "rat \<Rightarrow> rat \<Rightarrow> py_error + rat" where
  "py_div a b = (if b = 0 then Inl ZeroDivisionError else Inr (a / b))"

fun py_min :: "rat list \<Rightarrow> py_error + rat" where
  "py_min [] = Inl ValueError"
| "py_min (x # xs) = Inr (fold min xs x)"

fun py_max :: "rat list \<Rightarrow> py_error + rat" where
  "py_max [] = Inl ValueError"
| "py_max (x # xs) = Inr (fold max xs x)"

text \<open>\<open>d.get(k, dflt)\<close> and \<open>d[k] = v\<close> on a dict in insertion order.\<close>

definition dict_get :: "(string \<times> 'v) list \<Rightarrow> string \<Rightarrow> 'v \<Rightarrow> 'v" where
  "dict_get d k dflt = (case map_of d k of None \<Rightarrow> dflt | Some v \<Rightarrow> v)"

fun dict_set :: "(string \<times> 'v) list \<Rightarrow> string \<Rightarrow> 'v \<Rightarrow> (string \<times> 'v) list" where
  "dict_set [] k v = [(k, v)]"
| "dict_set ((k', v') # d) k v = (if k' = k then (k, v) # d else (k', v') # dict_set d k v)"

text \<open>\<open>round(x, 2)\<close>: to the nearest multiple of 1/100, a tie to the even one.\<close>

definition round_half_even :: "rat \<Rightarrow> int" where
  "round_half_even x =
     (let f = \<lfloor>x\<rfloor>; d = x - of_int f
      in if d < 1 / 2 then f else if 1 / 2 < d then f + 1 else if even f then f else f + 1)"

definition py_round2 :: "rat \<Rightarrow> rat" where
  "py_round2 x = of_int (round_half_even (x * 100)) / 100"

text \<open>\<open>xs[:n]\<close>: a negative \<open>n\<close> counts from the end.\<close>

definition py_slice_to :: "int \<Rightarrow> 'a list \<Rightarrow> 'a list" where
  "py_slice_to n xs =
     (if 0 \<le> n then take (nat n) xs else take (nat (int (length xs) + n)) xs)"

subsection \<open>Configuration\<close>

definition get_default_config :: config where
  "get_default_config =
     \<lparr> score_weights = \<lparr> usage_match = 7 / 10, price_advantage = 3 / 10 \<rparr>,
       thresholds = \<lparr> budget_tolerance = 12 / 10, waste_penalty = 1 / 10,
                      perfect_match_ratio = 15 / 10 \<rparr>,
       max_recommendations = 10 \<rparr>"

subsection \<open>Scoring\<close>

fun calculate_satisfaction_scores :: "pydict \<Rightarrow> pydict \<Rightarrow> py_error + rat list" where
  "calculate_satisfaction_scores [] product_specs = Inr []"
| "calculate_satisfaction_scores ((need_key, user_value) # rest) product_specs =
     (case map_of product_specs need_key of
        None \<Rightarrow> calculate_satisfaction_scores rest product_specs
      | Some product_value \<Rightarrow>
          (if 0 < user_value then
             (case py_div product_value user_value of
                Inl e \<Rightarrow> Inl e
              | Inr q \<Rightarrow>
                  (case calculate_satisfaction_scores rest product_specs of
                     Inl e \<Rightarrow> Inl e
                   | Inr scores \<Rightarrow> Inr (min q 2 # scores)))
           else
             (case calculate_satisfaction_scores rest product_specs of
                Inl e \<Rightarrow> Inl e
              | Inr scores \<Rightarrow> Inr (1 # scores))))"

fun calculate_waste_penalties :: "pydict \<Rightarrow> pydict \<Rightarrow> py_error + rat list" where
  "calculate_waste_penalties [] product_specs = Inr []"
| "calculate_waste_penalties ((need_key, user_value) # rest) product_specs =
     (case map_of product_specs need_key of
        None \<Rightarrow> calculate_waste_penalties rest product_specs
      | Some product_value \<Rightarrow>
          (if 0 < user_value then
             (if user_value < product_value then
                (case py_div (product_value - user_value) user_value of
                   Inl e \<Rightarrow> Inl e
                 | Inr waste_ratio \<Rightarrow>
                     (case calculate_waste_penalties rest product_specs of
                        Inl e \<Rightarrow> Inl e
                      | Inr penalties \<Rightarrow> Inr (waste_ratio # penalties)))
              else calculate_waste_penalties rest product_specs)
           else calculate_waste_penalties rest product_specs))"

text \<open>\<open>sum(xs) / len(xs) if xs else 0\<close>, which the method applies to both lists.\<close>

definition average :: "rat list \<Rightarrow> py_error + rat" where
  "average xs = (if xs \<noteq> [] then py_div (sum_list xs) (of_nat (length xs)) else Inr 0)"

definition compute_final_usage_score :: "config \<Rightarrow> rat list \<Rightarrow> rat list \<Rightarrow> py_error + rat" where
  "compute_final_usage_score cfg scores penalties =
     err_bind (average scores) (\<lambda>avg_score.
     err_bind (average penalties) (\<lambda>avg_penalty.
       Inr (max (avg_score - avg_penalty * waste_penalty (thresholds cfg)) 0)))"

definition calculate_usage_score :: "config \<Rightarrow> pydict \<Rightarrow> pydict \<Rightarrow> py_error + rat" where
  "calculate_usage_score cfg user_needs product_specs =
     err_bind (calculate_satisfaction_scores user_needs product_specs) (\<lambda>scores.
     err_bind (calculate_waste_penalties user_needs product_specs) (\<lambda>penalties.
       compute_final_usage_score cfg scores penalties))"

definition calculate_price_score :: "rat \<Rightarrow> rat \<Rightarrow> py_error + rat" where
  "calculate_price_score user_budget product_price =
     (if product_price \<le> 0 then Inr 0 else py_div user_budget product_price)"

definition calculate_weighted_score :: "config \<Rightarrow> rat \<Rightarrow> rat \<Rightarrow> rat" where
  "calculate_weighted_score cfg usage price_sc =
     usage * usage_match (score_weights cfg) + price_sc * price_advantage (score_weights cfg)"

subsection \<open>Eligibility\<close>

text \<open>The loop over the needs, which returns at the first need that is not met.\<close>

fun check_needs :: "pydict \<Rightarrow> pydict \<Rightarrow> bool" where
  "check_needs [] product_specs = True"
| "check_needs ((need_key, user_value) # rest) product_specs =
     (case map_of product_specs need_key of
        None \<Rightarrow> check_needs rest product_specs
      | Some product_value \<Rightarrow>
          (if product_value < user_value then False else check_needs rest product_specs))"

definition check_basic_requirements :: "config \<Rightarrow> pydict \<Rightarrow> pydict \<Rightarrow> rat \<Rightarrow> rat \<Rightarrow> bool" where
  "check_basic_requirements cfg user_needs product_specs user_budget product_price =
     (if user_budget * budget_tolerance (thresholds cfg) < product_price then False
      else check_needs user_needs product_specs)"

subsection \<open>Match reasons\<close>

text \<open>The display names and units are UTF-8 text, given by its bytes.\<close>

definition get_need_display_name :: "string \<Rightarrow> string" where
  "get_need_display_name need_key =
     (if need_key = ''data'' then [CHR 0xE6, CHR 0xB5, CHR 0x81, CHR 0xE9, CHR 0x87, CHR 0x8F]
      else if need_key = ''calls'' then [CHR 0xE9, CHR 0x80, CHR 0x9A, CHR 0xE8, CHR 0xAF, CHR 0x9D]
      else if need_key = ''sms'' then [CHR 0xE7, CHR 0x9F, CHR 0xAD, CHR 0xE4, CHR 0xBF, CHR 0xA1]
      else need_key)"

definition get_need_unit :: "string \<Rightarrow> string" where
  "get_need_unit need_key =
     (if need_key = ''data'' then ''GB''
      else if need_key = ''calls'' then [CHR 0xE5, CHR 0x88, CHR 0x86, CHR 0xE9, CHR 0x92, CHR 0x9F]
      else if need_key = ''sms'' then [CHR 0xE6, CHR 0x9D, CHR 0xA1]
      else [])"

fun analyze_need_match_reasons :: "config \<Rightarrow> pydict \<Rightarrow> pydict \<Rightarrow> reason list" where
  "analyze_need_match_reasons cfg [] product_specs = []"
| "analyze_need_match_reasons cfg ((need_key, user_value) # rest) product_specs =
     (case map_of product_specs need_key of
        None \<Rightarrow> analyze_need_match_reasons cfg rest product_specs
      | Some product_value \<Rightarrow>
          (let need_name = get_need_display_name need_key;
               unit = get_need_unit need_key
           in if user_value \<le> product_value then
                (if product_value \<le> user_value * perfect_match_ratio (thresholds cfg) then
                   NeedFullyMet need_name product_value unit user_value unit
                     # analyze_need_match_reasons cfg rest product_specs
                 else
                   NeedAmple need_name product_value unit (product_value - user_value) unit
                     # analyze_need_match_reasons cfg rest product_specs)
              else analyze_need_match_reasons cfg rest product_specs))"

definition analyze_price_reasons :: "config \<Rightarrow> rat \<Rightarrow> rat \<Rightarrow> reason list" where
  "analyze_price_reasons cfg user_budget product_price =
     (if product_price \<le> user_budget then
        (let savings = user_budget - product_price
         in if 20 \<le> savings then [PriceSaves product_price savings]
            else [PriceWithinBudget product_price])
      else if product_price \<le> user_budget * budget_tolerance (thresholds cfg) then
        [PriceOverBudget product_price (product_price - user_budget)]
      else [])"

definition generate_match_reason :: "config \<Rightarrow> pydict \<Rightarrow> rat \<Rightarrow> product \<Rightarrow> reason list" where
  "generate_match_reason cfg user_needs user_budget p =
     (let product_specs = (case specs p of None \<Rightarrow> [] | Some s \<Rightarrow> s);
          product_price = dict_get product_specs ''price'' (case price p of None \<Rightarrow> 0 | Some v \<Rightarrow> v);
          need_reasons = analyze_need_match_reasons cfg user_needs product_specs;
          price_reasons = analyze_price_reasons cfg user_budget product_price
      in need_reasons @ price_reasons)"

subsection \<open>Recommending\<close>

definition evaluate_single_product ::
    "config \<Rightarrow> pydict \<Rightarrow> rat \<Rightarrow> product \<Rightarrow> py_error + recommendation option" where
  "evaluate_single_product cfg user_needs user_budget p =
     (let product_specs = (case specs p of None \<Rightarrow> [] | Some s \<Rightarrow> s);
          product_price = dict_get product_specs ''price'' (case price p of None \<Rightarrow> 0 | Some v \<Rightarrow> v)
      in if \<not> check_basic_requirements cfg user_needs product_specs user_budget product_price
         then Inr None
         else
           err_bind (calculate_usage_score cfg user_needs product_specs) (\<lambda>usage.
           err_bind (calculate_price_score user_budget product_price) (\<lambda>price_sc.
             (let final_score = calculate_weighted_score cfg usage price_sc;
                  reason = generate_match_reason cfg user_needs user_budget p
              in Inr (Some \<lparr> product = p, score = py_round2 final_score,
                              usage_score = py_round2 usage, price_score = py_round2 price_sc,
                              match_reason = reason \<rparr>)))))"

text \<open>
  \<open>list.sort(key = score, reverse = True)\<close> is a stable sort into descending order of
  the key. The result of a stable sort is determined by the input, so the insertion sort
  of the library on the negated key gives the list that Python's sort gives.
\<close>

definition sort_and_limit_recommendations :: "config \<Rightarrow> recommendation list \<Rightarrow> recommendation list" where
  "sort_and_limit_recommendations cfg recommendations =
     py_slice_to (max_recommendations cfg) (sort_key (\<lambda>r. - score r) recommendations)"

fun recommend_loop ::
    "config \<Rightarrow> pydict \<Rightarrow> rat \<Rightarrow> product list \<Rightarrow> recommendation list \<Rightarrow> py_error + recommendation list" where
  "recommend_loop cfg user_needs user_budget [] recommendations = Inr recommendations"
| "recommend_loop cfg user_needs user_budget (p # ps) recommendations =
     (case evaluate_single_product cfg user_needs user_budget p of
        Inl e \<Rightarrow> Inl e
      | Inr None \<Rightarrow> recommend_loop cfg user_needs user_budget ps recommendations
      | Inr (Some r) \<Rightarrow> recommend_loop cfg user_needs user_budget ps (recommendations @ [r]))"

definition recommend :: "config \<Rightarrow> pydict \<Rightarrow> rat \<Rightarrow> product list \<Rightarrow> py_error + recommendation list" where
  "recommend cfg user_needs user_budget products =
     (case recommend_loop cfg user_needs user_budget products [] of
        Inl e \<Rightarrow> Inl e
      | Inr recommendations \<Rightarrow> Inr (sort_and_limit_recommendations cfg recommendations))"

subsection \<open>The call of recommend on the heap\<close>

text \<open>
  The methods above are functions of the configuration because they assign to nothing
  but lists that they create and return. \<open>recommend\<close> itself appends to a list and
  sorts it in place, and it reads \<open>self.config\<close> and the list \<open>products\<close> that the
  caller owns. To see what a call leaves behind, the statements of \<open>recommend\<close> and of
  \<open>_sort_and_limit_recommendations\<close> are run here on a heap of objects: the engine with
  its configuration, lists of products and lists of recommendations. An address is an
  index into the heap. A statement that changes a list in place writes the heap at the
  address of the list; using an object as something it is not raises.

  The \<open>for\<close> loop steps through the list object by index, as the list iterator does, and
  reads the list and \<open>self.config\<close> from the heap in every round; it is a partial
  function, since a list that grows while it is iterated never ends the loop.
\<close>

type_synonym addr = nat

datatype obj =
    EngineObj config
  | ProductList "product list"
  | RecList "recommendation list"

definition heap_get :: "obj list \<Rightarrow> addr \<Rightarrow> obj option" where
  "heap_get h a = (if a < length h then Some (h ! a) else None)"

definition alloc :: "obj list \<Rightarrow> obj \<Rightarrow> addr \<times> obj list" where
  "alloc h x = (length h, h @ [x])"

definition self_config :: "obj list \<Rightarrow> addr \<Rightarrow> py_error + config" where
  "self_config h self =
     (case heap_get h self of Some (EngineObj cfg) \<Rightarrow> Inr cfg | _ \<Rightarrow> Inl AttributeError)"

definition list_append :: "obj list \<Rightarrow> addr \<Rightarrow> recommendation \<Rightarrow> py_error + obj list" where
  "list_append h a r =
     (case heap_get h a of
        Some (RecList xs) \<Rightarrow> Inr (h[a := RecList (xs @ [r])])
      | _ \<Rightarrow> Inl AttributeError)"

definition list_sort_by_score :: "obj list \<Rightarrow> addr \<Rightarrow> py_error + obj list" where
  "list_sort_by_score h a =
     (case heap_get h a of
        Some (RecList xs) \<Rightarrow> Inr (h[a := RecList (sort_key (\<lambda>r. - score r) xs)])
      | _ \<Rightarrow> Inl AttributeError)"

text \<open>\<open>__init__\<close>: \<open>self.config = config or self._get_default_config()\<close>.\<close>

definition init_engine :: "obj list \<Rightarrow> config option \<Rightarrow> addr \<times> obj list" where
  "init_engine h c =
     alloc h (EngineObj (case c of None \<Rightarrow> get_default_config | Some cfg \<Rightarrow> cfg))"

partial_function (option) recommend_for ::
    "obj list \<Rightarrow> addr \<Rightarrow> pydict \<Rightarrow> rat \<Rightarrow> addr \<Rightarrow> addr \<Rightarrow> nat
       \<Rightarrow> ((py_error + unit) \<times> obj list) option" where
  "recommend_for h self user_needs user_budget products recommendations i =
     (case heap_get h products of
        Some (ProductList ps) \<Rightarrow>
          (if i < length ps then
             (case self_config h self of
                Inl e \<Rightarrow> Some (Inl e, h)
              | Inr cfg \<Rightarrow>
                  (case evaluate_single_product cfg user_needs user_budget (ps ! i) of
                     Inl e \<Rightarrow> Some (Inl e, h)
                   | Inr None \<Rightarrow>
                       recommend_for h self user_needs user_budget products recommendations (Suc i)
                   | Inr (Some r) \<Rightarrow>
                       (case list_append h recommendations r of
                          Inl e \<Rightarrow> Some (Inl e, h)
                        | Inr h' \<Rightarrow>
                            recommend_for h' self user_needs user_budget products recommendations
                              (Suc i))))
           else Some (Inr (), h))
      | _ \<Rightarrow> Some (Inl TypeError, h))"

declare recommend_for.simps [code]

definition sort_and_limit_method ::
    "obj list \<Rightarrow> addr \<Rightarrow> addr \<Rightarrow> (py_error + recommendation list) \<times> obj list" where
  "sort_and_limit_method h self recommendations =
     (case list_sort_by_score h recommendations of
        Inl e \<Rightarrow> (Inl e, h)
      | Inr h1 \<Rightarrow>
          (case self_config h1 self of
             Inl e \<Rightarrow> (Inl e, h1)
           | Inr cfg \<Rightarrow>
               (case heap_get h1 recommendations of
                  Some (RecList xs) \<Rightarrow> (Inr (py_slice_to (max_recommendations cfg) xs), h1)
                | _ \<Rightarrow> (Inl TypeError, h1))))"

definition recommend_method ::
    "obj list \<Rightarrow> addr \<Rightarrow> pydict \<Rightarrow> rat \<Rightarrow> addr
       \<Rightarrow> ((py_error + recommendation list) \<times> obj list) option" where
  "recommend_method h self user_needs user_budget products =
     (case alloc h (RecList []) of
        (recommendations, h0) \<Rightarrow>
          (case recommend_for h0 self user_needs user_budget products recommendations 0 of
             None \<Rightarrow> None
           | Some (Inl e, h1) \<Rightarrow> Some (Inl e, h1)
           | Some (Inr u, h1) \<Rightarrow> Some (sort_and_limit_method h1 self recommendations)))"

subsection \<open>Diagnosis of an empty result\<close>

definition is_over_budget_but_specs_satisfy :: "config \<Rightarrow> pydict \<Rightarrow> pydict \<Rightarrow> rat \<Rightarrow> rat \<Rightarrow> bool" where
  "is_over_budget_but_specs_satisfy cfg product_specs user_needs product_price user_budget =
     (let specs_satisfy = list_all (\<lambda>(key, val). val \<le> dict_get product_specs key 0) user_needs;
          tolerated = user_budget * budget_tolerance (thresholds cfg)
      in specs_satisfy \<and> tolerated < product_price)"

definition record_insufficient :: "analysis \<Rightarrow> string \<Rightarrow> product \<Rightarrow> analysis" where
  "record_insufficient a need_key p =
     (let d1 = (if map_of (insufficient_specs a) need_key = None
                then dict_set (insufficient_specs a) need_key []
                else insufficient_specs a);
          d2 = dict_set d1 need_key (dict_get d1 need_key [] @ [p])
      in a\<lparr>insufficient_specs := d2\<rparr>)"

fun check_insufficient_loop :: "pydict \<Rightarrow> pydict \<Rightarrow> product \<Rightarrow> analysis \<Rightarrow> analysis" where
  "check_insufficient_loop [] product_specs p a = a"
| "check_insufficient_loop ((need_key, user_value) # rest) product_specs p a =
     (if dict_get product_specs need_key 0 < user_value
      then check_insufficient_loop rest product_specs p (record_insufficient a need_key p)
      else check_insufficient_loop rest product_specs p a)"

definition check_insufficient_specs ::
    "config \<Rightarrow> pydict \<Rightarrow> rat \<Rightarrow> pydict \<Rightarrow> rat \<Rightarrow> analysis \<Rightarrow> product \<Rightarrow> analysis" where
  "check_insufficient_specs cfg product_specs product_price user_needs user_budget a p =
     (let tolerated = user_budget * budget_tolerance (thresholds cfg)
      in if product_price \<le> tolerated then check_insufficient_loop user_needs product_specs p a
         else a)"

fun analyze_product_mismatch ::
    "config \<Rightarrow> product list \<Rightarrow> pydict \<Rightarrow> rat \<Rightarrow> analysis \<Rightarrow> analysis" where
  "analyze_product_mismatch cfg [] user_needs user_budget a = a"
| "analyze_product_mismatch cfg (p # ps) user_needs user_budget a =
     (let product_specs = (case specs p of None \<Rightarrow> [] | Some s \<Rightarrow> s);
          product_price = dict_get product_specs ''price'' (case price p of None \<Rightarrow> 0 | Some v \<Rightarrow> v);
          a1 = (if is_over_budget_but_specs_satisfy cfg product_specs user_needs product_price user_budget
                then a\<lparr>over_budget_products := over_budget_products a @ [p]\<rparr>
                else a);
          a2 = check_insufficient_specs cfg product_specs product_price user_needs user_budget a1 p
      in analyze_product_mismatch cfg ps user_needs user_budget a2)"

fun spec_suggestions_loop :: "(string \<times> product list) list \<Rightarrow> analysis \<Rightarrow> py_error + analysis" where
  "spec_suggestions_loop [] a = Inr a"
| "spec_suggestions_loop ((need_key, products_list) # rest) a =
     (case py_max (map (\<lambda>p. dict_get (case specs p of None \<Rightarrow> [] | Some s \<Rightarrow> s) need_key 0)
                       products_list) of
        Inl e \<Rightarrow> Inl e
      | Inr max_spec \<Rightarrow>
          spec_suggestions_loop rest
            (a\<lparr>suggestions := suggestions a
                  @ [LowerNeed (get_need_display_name need_key) max_spec (get_need_unit need_key)]\<rparr>))"

definition generate_improvement_suggestions :: "analysis \<Rightarrow> pydict \<Rightarrow> py_error + analysis" where
  "generate_improvement_suggestions a user_needs =
     err_bind
       (if over_budget_products a \<noteq> [] then
          err_bind
            (py_min (map (\<lambda>p. dict_get (case specs p of None \<Rightarrow> [] | Some s \<Rightarrow> s) ''price''
                                  (case price p of None \<Rightarrow> 0 | Some v \<Rightarrow> v))
                         (over_budget_products a)))
            (\<lambda>min_price. Inr (a\<lparr>suggestions := suggestions a @ [RaiseBudget min_price]\<rparr>))
        else Inr a)
       (\<lambda>a1. spec_suggestions_loop (insufficient_specs a1) a1)"

definition analyze_no_match_reason ::
    "config \<Rightarrow> pydict \<Rightarrow> rat \<Rightarrow> product list \<Rightarrow> py_error + analysis" where
  "analyze_no_match_reason cfg user_needs user_budget products =
     (let a0 = \<lparr> over_budget_products = [], insufficient_specs = [], suggestions = [] \<rparr>;
          a1 = analyze_product_mismatch cfg products user_needs user_budget a0
      in generate_improvement_suggestions a1 user_needs)"

subsection \<open>Closed forms used in the statements\<close>

text \<open>
  The needs that the product's specs have an entry for, the satisfaction and the waste
  ratio of one need, and the mean of a list (0 for the empty list).
\<close>

definition matched :: "pydict \<Rightarrow> pydict \<Rightarrow> pydict" where
  "matched user_needs product_specs =
     filter (\<lambda>(k, v). map_of product_specs k \<noteq> None) user_needs"

definition satisfaction :: "pydict \<Rightarrow> string \<times> rat \<Rightarrow> rat" where
  "satisfaction product_specs =
     (\<lambda>(k, v). if 0 < v then min (dict_get product_specs k 0 / v) 2 else 1)"

definition wasteful :: "pydict \<Rightarrow> string \<times> rat \<Rightarrow> bool" where
  "wasteful product_specs = (\<lambda>(k, v). 0 < v \<and> v < dict_get product_specs k 0)"

definition waste_ratio :: "pydict \<Rightarrow> string \<times> rat \<Rightarrow> rat" where
  "waste_ratio product_specs = (\<lambda>(k, v). (dict_get product_specs k 0 - v) / v)"

definition mean :: "rat list \<Rightarrow> rat" where
  "mean xs = (if xs = [] then 0 else sum_list xs / of_nat (length xs))"

text \<open>
  The satisfactions as the specification words them: a need that the specs have no entry
  for counts with the value 0, so every need contributes one satisfaction.
\<close>

definition satisfaction_scores_spec :: "pydict \<Rightarrow> pydict \<Rightarrow> rat list" where
  "satisfaction_scores_spec user_needs product_specs =
     map (satisfaction product_specs) user_needs"

text \<open>
  \<open>product.get("specs", {})\<close>, and the price of a product as the specification words
  it: the price entry of the specs if there is one, otherwise the top-level price if there
  is one, otherwise 0.
\<close>

definition specs_of :: "product \<Rightarrow> pydict" where
  "specs_of p = (case specs p of None \<Rightarrow> [] | Some s \<Rightarrow> s)"

definition resolve_price :: "product \<Rightarrow> rat" where
  "resolve_price p =
     (case map_of (specs_of p) ''price'' of
        Some v \<Rightarrow> v
      | None \<Rightarrow> (case price p of Some v \<Rightarrow> v | None \<Rightarrow> 0))"

text \<open>The eligibility check applied to a product of the catalog.\<close>

definition eligible :: "config \<Rightarrow> pydict \<Rightarrow> rat \<Rightarrow> product \<Rightarrow> bool" where
  "eligible cfg user_needs user_budget p =
     check_basic_requirements cfg user_needs (specs_of p) user_budget (resolve_price p)"

text \<open>
  The recommendation of an eligible product in closed form, and the recommendations of
  the eligible products of a catalog, in the order of the catalog.
\<close>

definition usage_value :: "config \<Rightarrow> pydict \<Rightarrow> pydict \<Rightarrow> rat" where
  "usage_value cfg user_needs product_specs =
     max (mean (map (satisfaction product_specs) (matched user_needs product_specs))
          - mean (map (waste_ratio product_specs)
                   (filter (wasteful product_specs) (matched user_needs product_specs)))
            * waste_penalty (thresholds cfg)) 0"

definition price_value :: "rat \<Rightarrow> rat \<Rightarrow> rat" where
  "price_value user_budget product_price =
     (if 0 < product_price then user_budget / product_price else 0)"

definition recommendation_of :: "config \<Rightarrow> pydict \<Rightarrow> rat \<Rightarrow> product \<Rightarrow> recommendation" where
  "recommendation_of cfg user_needs user_budget p =
     \<lparr> product = p,
       score = py_round2 (calculate_weighted_score cfg
                 (usage_value cfg user_needs (specs_of p))
                 (price_value user_budget (resolve_price p))),
       usage_score = py_round2 (usage_value cfg user_needs (specs_of p)),
       price_score = py_round2 (price_value user_budget (resolve_price p)),
       match_reason = analyze_need_match_reasons cfg user_needs (specs_of p)
                        @ analyze_price_reasons cfg user_budget (resolve_price p) \<rparr>"

definition evaluated :: "config \<Rightarrow> pydict \<Rightarrow> rat \<Rightarrow> product list \<Rightarrow> recommendation list" where
  "evaluated cfg user_needs user_budget products =
     map (recommendation_of cfg user_needs user_budget)
       (filter (eligible cfg user_needs user_budget) products)"

text \<open>
  The diagnosis: appending a product to the list of a key, the invariant that no recorded
  list is empty, and the suggestions in closed form.
\<close>

fun append_entry :: "(string \<times> product list) list \<Rightarrow> string \<Rightarrow> product \<Rightarrow> (string \<times> product list) list" where
  "append_entry [] k p = [(k, [p])]"
| "append_entry ((k', ps) # d) k p =
     (if k' = k then (k', ps @ [p]) # d else (k', ps) # append_entry d k p)"

definition entries_nonempty :: "analysis \<Rightarrow> bool" where
  "entries_nonempty a = list_all (\<lambda>(k, ps). ps \<noteq> []) (insufficient_specs a)"

definition lower_need :: "string \<times> product list \<Rightarrow> suggestion" where
  "lower_need = (\<lambda>(k, ps). LowerNeed (get_need_display_name k)
      (Max ((\<lambda>p. dict_get (specs_of p) k 0) ` set ps)) (get_need_unit k))"

definition raise_budget :: "product list \<Rightarrow> suggestion list" where
  "raise_budget ps = (if ps = [] then [] else [RaiseBudget (Min (resolve_price ` set ps))])"

subsection \<open>Example inputs\<close>

text \<open>
  A catalog of five products for the needs data 30 and calls 500 and the budget 150:
  A and C are the same offer, B is cheaper, D costs more than the tolerated budget and
  E has too little data. The last product names no price at all.
\<close>

definition example_catalog :: "product list" where
  "example_catalog =
     [\<lparr>name = ''A'', specs = Some [(''data'', 30), (''calls'', 500), (''price'', 100)], price = None\<rparr>,
      \<lparr>name = ''B'', specs = Some [(''data'', 30), (''calls'', 500), (''price'', 75)], price = None\<rparr>,
      \<lparr>name = ''C'', specs = Some [(''data'', 30), (''calls'', 500), (''price'', 100)], price = None\<rparr>,
      \<lparr>name = ''D'', specs = Some [(''data'', 30), (''calls'', 500), (''price'', 200)], price = None\<rparr>,
      \<lparr>name = ''E'', specs = Some [(''data'', 10), (''calls'', 500)], price = Some 50\<rparr>]"

definition example_unpriced :: product where
  "example_unpriced = \<lparr>name = ''F'', specs = Some [(''data'', 30), (''calls'', 500)], price = None\<rparr>"

text \<open>A heap with an engine of the default configuration and the catalog.\<close>

definition example_heap :: "obj list" where
  "example_heap = [EngineObj get_default_config, ProductList example_catalog]"

section \<open>Properties\<close>

subsection \<open>Scores\<close>

lemma satisfaction_scores_eq:
  "calculate_satisfaction_scores user_needs product_specs =
     Inr (map (satisfaction product_specs) (matched user_needs product_specs))"
  by (induction user_needs product_specs rule: calculate_satisfaction_scores.induct)
     (auto simp: matched_def satisfaction_def dict_get_def py_div_def split: option.splits)

lemma waste_penalties_eq:
  "calculate_waste_penalties user_needs product_specs =
     Inr (map (waste_ratio product_specs)
            (filter (wasteful product_specs) (matched user_needs product_specs)))"
  by (induction user_needs product_specs rule: calculate_waste_penalties.induct)
     (auto simp: matched_def wasteful_def waste_ratio_def dict_get_def py_div_def
           split: option.splits)

lemma average_eq: "average xs = Inr (mean xs)"
  by (simp add: average_def mean_def py_div_def)

lemma usage_score_eq:
  "calculate_usage_score cfg user_needs product_specs =
     Inr (max (mean (map (satisfaction product_specs) (matched user_needs product_specs))
               - mean (map (waste_ratio product_specs)
                        (filter (wasteful product_specs) (matched user_needs product_specs)))
                 * waste_penalty (thresholds cfg)) 0)"
  by (simp add: calculate_usage_score_def compute_final_usage_score_def err_bind_def
      satisfaction_scores_eq waste_penalties_eq average_eq)

lemma price_score_eq:
  "calculate_price_score user_budget product_price =
     Inr (if 0 < product_price then user_budget / product_price else 0)"
  by (simp add: calculate_price_score_def py_div_def)

text \<open>
  C2, as claimed: a need that the specs have no entry for contributes a satisfaction of 0,
  so that the average is over all the needs. The code skips such a need: for the needs
  data 30 and calls 500 and a product with data 30 and no calls, the only satisfaction is
  1 and the usage score is 1, where the claim has the satisfactions 1 and 0.
\<close>

theorem usage_score_absent_counterexample:
  "map_of [(''data'', 30), (''price'', 100 :: rat)] ''calls'' = None
   \<and> calculate_satisfaction_scores [(''data'', 30), (''calls'', 500)]
        [(''data'', 30), (''price'', 100)] = Inr [1]
   \<and> satisfaction_scores_spec [(''data'', 30), (''calls'', 500)]
        [(''data'', 30), (''price'', 100)] = [1, 0]
   \<and> calculate_usage_score get_default_config [(''data'', 30), (''calls'', 500)]
        [(''data'', 30), (''price'', 100)] = Inr 1"
  by (simp add: calculate_usage_score_def compute_final_usage_score_def err_bind_def
      average_def py_div_def satisfaction_scores_spec_def satisfaction_def dict_get_def)

text \<open>
  C2, amended: a need that the specs have no entry for is skipped. The satisfactions are
  those of the needs that the specs have an entry for, one for each and in the order of
  the needs, and the usage score is their mean (0 when there is none) less the weighted
  mean waste, and at least 0.
\<close>

theorem usage_score_over_matched:
  "calculate_satisfaction_scores user_needs product_specs =
     Inr (map (satisfaction product_specs) (matched user_needs product_specs))
   \<and> calculate_usage_score cfg user_needs product_specs =
     Inr (max (mean (map (satisfaction product_specs) (matched user_needs product_specs))
               - mean (map (waste_ratio product_specs)
                        (filter (wasteful product_specs) (matched user_needs product_specs)))
                 * waste_penalty (thresholds cfg)) 0)"
  by (simp add: satisfaction_scores_eq usage_score_eq)

theorem usage_score_over_matched_witness:
  "calculate_satisfaction_scores [(''data'', 30), (''calls'', 500)]
        [(''data'', 60), (''price'', 100)] = Inr [2]
   \<and> calculate_usage_score get_default_config [(''data'', 30), (''calls'', 500)]
        [(''data'', 60), (''price'', 100)] = Inr (19 / 10)"
  using usage_score_over_matched [of "[(''data'', 30), (''calls'', 500)]"
      "[(''data'', 60), (''price'', 100)]" get_default_config]
  by (simp add: matched_def satisfaction_def wasteful_def waste_ratio_def mean_def
      dict_get_def get_default_config_def)

text \<open>
  C6, as claimed: the price score is never negative. For the budget -1 and the price 1
  the code returns -1.
\<close>

theorem price_score_negative_counterexample:
  "\<not> (\<exists>s. calculate_price_score (- 1) 1 = Inr s \<and> 0 \<le> s)"
  by (simp add: calculate_price_score_def py_div_def)

text \<open>
  C6, amended: the usage score is at least 0 for all needs and specs, and the price score
  is at least 0 for every price and every budget that is not negative. Both calls return
  a value.
\<close>

theorem score_bounds:
  "(\<exists>u. calculate_usage_score cfg user_needs product_specs = Inr u \<and> 0 \<le> u)
   \<and> (0 \<le> user_budget \<longrightarrow>
        (\<exists>s. calculate_price_score user_budget product_price = Inr s \<and> 0 \<le> s))"
  by (simp add: usage_score_eq price_score_eq)

theorem score_bounds_witness:
  "(\<exists>u. calculate_usage_score get_default_config [(''data'', 30)] [(''data'', 90)] = Inr u
        \<and> 0 \<le> u)
   \<and> (\<exists>s. calculate_price_score 150 100 = Inr s \<and> 0 \<le> s)"
  using score_bounds [of get_default_config "[(''data'', 30)]" "[(''data'', 90)]" 150 100]
  by simp

subsection \<open>The price score\<close>

text \<open>
  C5. The price score is budget / price for a positive price and 0 for a price that is
  zero or negative; the call returns a value for every budget and price, it never
  raises ZeroDivisionError.
\<close>

theorem calculate_price_score_value:
  "calculate_price_score user_budget product_price =
     Inr (if 0 < product_price then user_budget / product_price else 0)"
  by (simp add: calculate_price_score_def py_div_def)

theorem calculate_price_score_value_witness:
  "calculate_price_score 150 100 = Inr (3 / 2) \<and> calculate_price_score 150 0 = Inr 0
     \<and> calculate_price_score 150 (- 5) = Inr 0"
  using calculate_price_score_value [of 150 100] calculate_price_score_value [of 150 0]
    calculate_price_score_value [of 150 "- 5"]
  by simp

subsection \<open>Eligibility\<close>

lemma check_needs_eq:
  "check_needs user_needs product_specs =
     (\<forall>(k, v) \<in> set user_needs. \<forall>pv. map_of product_specs k = Some pv \<longrightarrow> v \<le> pv)"
  by (induction user_needs product_specs rule: check_needs.induct)
     (auto split: option.splits)

text \<open>
  C1, as claimed: a need with a positive value that the specs have no entry for makes the
  check fail. The code skips such a need: for the need data 30, a product with the price
  100 and no data entry passes the check at the budget 150.
\<close>

theorem absent_attribute_counterexample:
  "(''data'', 30) \<in> set [(''data'', 30 :: rat)] \<and> (0 :: rat) < 30
   \<and> map_of [(''price'', 100 :: rat)] ''data'' = None
   \<and> check_basic_requirements get_default_config [(''data'', 30)] [(''price'', 100)] 150 100"
  by (simp add: check_basic_requirements_def get_default_config_def)

text \<open>
  C1, amended: the check fails exactly when the price is above the tolerated budget or
  some need has an entry in the specs whose value is less than the needed value. A need
  that the specs have no entry for is skipped and never makes the check fail.
\<close>

theorem check_basic_requirements_iff:
  "check_basic_requirements cfg user_needs product_specs user_budget product_price =
     (product_price \<le> user_budget * budget_tolerance (thresholds cfg)
      \<and> (\<forall>(k, v) \<in> set user_needs. \<forall>pv. map_of product_specs k = Some pv \<longrightarrow> v \<le> pv))"
  by (auto simp: check_basic_requirements_def check_needs_eq)

theorem check_basic_requirements_iff_witness:
  "check_basic_requirements get_default_config [(''data'', 30), (''calls'', 500)]
      [(''data'', 10), (''price'', 100)] 150 100 = False
   \<and> check_basic_requirements get_default_config [(''data'', 30), (''calls'', 500)]
      [(''data'', 30), (''price'', 100)] 150 100 = True"
  using check_basic_requirements_iff [of get_default_config "[(''data'', 30), (''calls'', 500)]"
      "[(''data'', 10), (''price'', 100)]" 150 100]
    check_basic_requirements_iff [of get_default_config "[(''data'', 30), (''calls'', 500)]"
      "[(''data'', 30), (''price'', 100)]" 150 100]
  by (simp add: get_default_config_def)

subsection \<open>The price of a product\<close>

lemma inline_price_eq:
  "dict_get (case specs p of None \<Rightarrow> [] | Some s \<Rightarrow> s) ''price''
     (case price p of None \<Rightarrow> 0 | Some v \<Rightarrow> v) = resolve_price p"
  by (simp add: dict_get_def resolve_price_def specs_of_def split: option.splits)

lemma inline_price_eq2:
  "dict_get (specs_of p) ''price'' (case price p of None \<Rightarrow> 0 | Some v \<Rightarrow> v) = resolve_price p"
  by (simp add: dict_get_def resolve_price_def split: option.splits)

lemma inline_specs_eq: "(case specs p of None \<Rightarrow> [] | Some s \<Rightarrow> s) = specs_of p"
  by (simp add: specs_of_def)

lemma generate_match_reason_eq:
  "generate_match_reason cfg user_needs user_budget p =
     analyze_need_match_reasons cfg user_needs (specs_of p)
       @ analyze_price_reasons cfg user_budget (resolve_price p)"
  by (simp add: generate_match_reason_def Let_def inline_price_eq2 inline_specs_eq)

lemma evaluate_single_product_eq:
  "evaluate_single_product cfg user_needs user_budget p =
     Inr (if eligible cfg user_needs user_budget p
          then Some (recommendation_of cfg user_needs user_budget p) else None)"
  by (simp add: evaluate_single_product_def Let_def inline_price_eq2 inline_specs_eq
      eligible_def recommendation_of_def usage_score_eq price_score_eq err_bind_def
      generate_match_reason_eq usage_value_def price_value_def)

subsection \<open>The result of recommend\<close>

lemma recommend_loop_eq:
  "recommend_loop cfg user_needs user_budget products acc =
     Inr (acc @ evaluated cfg user_needs user_budget products)"
  by (induction products arbitrary: acc)
     (simp_all add: evaluate_single_product_eq evaluated_def)

lemma recommend_eq:
  "recommend cfg user_needs user_budget products =
     Inr (py_slice_to (max_recommendations cfg)
            (sort_key (\<lambda>r. - score r) (evaluated cfg user_needs user_budget products)))"
  by (simp add: recommend_def recommend_loop_eq sort_and_limit_recommendations_def)

lemma py_slice_to_prefix: "prefix (py_slice_to n xs) xs"
  by (simp add: py_slice_to_def take_is_prefix)

lemma py_slice_to_length: "0 \<le> n \<Longrightarrow> int (length (py_slice_to n xs)) \<le> n"
  by (simp add: py_slice_to_def)

lemma sorted_desc_sort_key:
  "sorted_wrt (\<lambda>a b. score b \<le> score a) (sort_key (\<lambda>r. - score r) xs)"
proof -
  have "sorted (map (\<lambda>r. - score r) (sort_key (\<lambda>r. - score r) xs))"
    by (rule sorted_sort_key)
  then show ?thesis by (simp add: sorted_map)
qed

lemma sorted_wrt_prefix: "prefix xs ys \<Longrightarrow> sorted_wrt R ys \<Longrightarrow> sorted_wrt R xs"
  by (auto simp: prefix_def sorted_wrt_append)

lemma stable_desc_sort_key:
  "filter (\<lambda>r. score r = k) (sort_key (\<lambda>r. - score r) xs) = filter (\<lambda>r. score r = k) xs"
  using sort_key_stable [of "\<lambda>r. - score r" "- k" xs] by simp

lemma evaluated_set:
  "r \<in> set (evaluated cfg user_needs user_budget products) \<Longrightarrow>
     product r \<in> set products \<and> eligible cfg user_needs user_budget (product r)
     \<and> r = recommendation_of cfg user_needs user_budget (product r)"
  by (auto simp: evaluated_def recommendation_of_def)

lemma recommend_example:
  "map_sum id (map (\<lambda>r. (name (product r), score r)))
     (recommend get_default_config [(''data'', 30), (''calls'', 500)] 150 example_catalog)
   = Inr [(''B'', 13 / 10), (''A'', 23 / 20), (''C'', 23 / 20)]"
  by code_simp

text \<open>
  C3. With a number of recommendations that is not negative, as the configuration has it,
  recommend returns a list in which every recommendation is of a product of the catalog
  that passes the eligibility check, the scores descend, the recommendations of any one
  score are an initial part of the catalog's recommendations of that score in the order
  of the catalog, and the length is at most \<open>max_recommendations\<close>.
\<close>

theorem recommend_invariant:
  assumes "0 \<le> max_recommendations cfg"
  shows "\<exists>out. recommend cfg user_needs user_budget products = Inr out
     \<and> (\<forall>r \<in> set out. product r \<in> set products
            \<and> eligible cfg user_needs user_budget (product r))
     \<and> sorted_wrt (\<lambda>x y. score y \<le> score x) out
     \<and> (\<forall>k. prefix (filter (\<lambda>r. score r = k) out)
              (filter (\<lambda>r. score r = k) (evaluated cfg user_needs user_budget products)))
     \<and> int (length out) \<le> max_recommendations cfg"
proof -
  let ?E = "evaluated cfg user_needs user_budget products"
  let ?S = "sort_key (\<lambda>r. - score r) ?E"
  let ?out = "py_slice_to (max_recommendations cfg) ?S"
  have pre: "prefix ?out ?S" by (rule py_slice_to_prefix)
  have res: "recommend cfg user_needs user_budget products = Inr ?out"
    by (rule recommend_eq)
  have "set ?out \<subseteq> set ?S" using pre by (rule set_mono_prefix)
  then have sub: "set ?out \<subseteq> set ?E" by simp
  have mem: "\<forall>r \<in> set ?out. product r \<in> set products
            \<and> eligible cfg user_needs user_budget (product r)"
    using sub evaluated_set by blast
  have srt: "sorted_wrt (\<lambda>x y. score y \<le> score x) ?out"
    using pre sorted_desc_sort_key by (rule sorted_wrt_prefix)
  have stab: "\<forall>k. prefix (filter (\<lambda>r. score r = k) ?out) (filter (\<lambda>r. score r = k) ?E)"
  proof
    fix k
    have "prefix (filter (\<lambda>r. score r = k) ?out) (filter (\<lambda>r. score r = k) ?S)"
      using pre by (rule filter_mono_prefix)
    then show "prefix (filter (\<lambda>r. score r = k) ?out) (filter (\<lambda>r. score r = k) ?E)"
      by (simp only: stable_desc_sort_key)
  qed
  have len: "int (length ?out) \<le> max_recommendations cfg"
    using assms by (rule py_slice_to_length)
  from res mem srt stab len show ?thesis by blast
qed

theorem recommend_invariant_witness:
  "0 \<le> max_recommendations get_default_config
   \<and> (\<exists>out. recommend get_default_config [(''data'', 30), (''calls'', 500)] 150 example_catalog
            = Inr out
     \<and> map (\<lambda>r. (name (product r), score r)) out
          = [(''B'', 13 / 10), (''A'', 23 / 20), (''C'', 23 / 20)]
     \<and> (\<forall>r \<in> set out. product r \<in> set example_catalog
            \<and> eligible get_default_config [(''data'', 30), (''calls'', 500)] 150 (product r))
     \<and> sorted_wrt (\<lambda>x y. score y \<le> score x) out
     \<and> (\<forall>k. prefix (filter (\<lambda>r. score r = k) out)
              (filter (\<lambda>r. score r = k)
                 (evaluated get_default_config [(''data'', 30), (''calls'', 500)] 150
                    example_catalog)))
     \<and> int (length out) \<le> max_recommendations get_default_config)"
proof -
  have h: "0 \<le> max_recommendations get_default_config"
    by (simp add: get_default_config_def)
  obtain out where r: "recommend get_default_config [(''data'', 30), (''calls'', 500)] 150
        example_catalog = Inr out"
    and m: "\<forall>r \<in> set out. product r \<in> set example_catalog
            \<and> eligible get_default_config [(''data'', 30), (''calls'', 500)] 150 (product r)"
    and srt: "sorted_wrt (\<lambda>x y. score y \<le> score x) out"
    and stab: "\<forall>k. prefix (filter (\<lambda>r. score r = k) out)
              (filter (\<lambda>r. score r = k)
                 (evaluated get_default_config [(''data'', 30), (''calls'', 500)] 150
                    example_catalog))"
    and len: "int (length out) \<le> max_recommendations get_default_config"
    using recommend_invariant [OF h, of "[(''data'', 30), (''calls'', 500)]" 150 example_catalog]
    by blast
  have names: "map (\<lambda>r. (name (product r), score r)) out
          = [(''B'', 13 / 10), (''A'', 23 / 20), (''C'', 23 / 20)]"
    using recommend_example by (simp add: r)
  show ?thesis
    by (intro conjI exI [where x = out]; fact)
qed

text \<open>
  C4. A product of the catalog whose price is above budget times \<open>budget_tolerance\<close>
  is the product of no recommendation that recommend returns, whatever its scores.
\<close>

theorem over_budget_never_recommended:
  assumes "p \<in> set products"
    and "user_budget * budget_tolerance (thresholds cfg) < resolve_price p"
  shows "\<exists>out. recommend cfg user_needs user_budget products = Inr out
           \<and> p \<notin> product ` set out"
proof -
  let ?E = "evaluated cfg user_needs user_budget products"
  let ?out = "py_slice_to (max_recommendations cfg) (sort_key (\<lambda>r. - score r) ?E)"
  have "set ?out \<subseteq> set (sort_key (\<lambda>r. - score r) ?E)"
    using py_slice_to_prefix by (rule set_mono_prefix)
  then have sub: "set ?out \<subseteq> set ?E" by simp
  have "\<not> eligible cfg user_needs user_budget p"
    using assms(2) by (simp add: eligible_def check_basic_requirements_def)
  then have "p \<notin> product ` set ?out"
    using sub evaluated_set by blast
  then show ?thesis by (simp add: recommend_eq)
qed

lemma catalog_D_price:
  "resolve_price \<lparr>name = ''D'', specs = Some [(''data'', 30), (''calls'', 500), (''price'', 200)], price = None\<rparr> = 200"
  by (simp add: resolve_price_def specs_of_def)

theorem over_budget_never_recommended_witness:
  "\<lparr>name = ''D'', specs = Some [(''data'', 30), (''calls'', 500), (''price'', 200)], price = None\<rparr>
      \<in> set example_catalog
   \<and> 150 * budget_tolerance (thresholds get_default_config)
       < resolve_price \<lparr>name = ''D'', specs = Some [(''data'', 30), (''calls'', 500), (''price'', 200)], price = None\<rparr>
   \<and> (\<exists>out. recommend get_default_config [(''data'', 30), (''calls'', 500)] 150 example_catalog = Inr out
        \<and> \<lparr>name = ''D'', specs = Some [(''data'', 30), (''calls'', 500), (''price'', 200)], price = None\<rparr>
            \<notin> product ` set out)"
proof -
  let ?D = "\<lparr>name = ''D'', specs = Some [(''data'', 30), (''calls'', 500), (''price'', 200)], price = None\<rparr>"
  have m: "?D \<in> set example_catalog" by (simp add: example_catalog_def)
  have b: "150 * budget_tolerance (thresholds get_default_config) < resolve_price ?D"
    by (simp add: catalog_D_price get_default_config_def)
  show ?thesis
    using m b over_budget_never_recommended [OF m b, of "[(''data'', 30), (''calls'', 500)]"]
    by (intro conjI)
qed

subsection \<open>The call of recommend on the heap\<close>

lemma heap_get_append: "a < length h \<Longrightarrow> heap_get (h @ xs) a = heap_get h a"
  by (simp add: heap_get_def nth_append)

lemma heap_get_update_other:
  "a \<noteq> b \<Longrightarrow> heap_get (h[b := x]) a = heap_get h a"
  by (simp add: heap_get_def)

lemma heap_get_update_same:
  "heap_get h b = Some y \<Longrightarrow> heap_get (h[b := x]) b = Some x"
  by (simp add: heap_get_def split: if_splits)

lemma heap_update_id: "heap_get h a = Some x \<Longrightarrow> h[a := x] = h"
  by (auto simp: heap_get_def split: if_splits)

lemma evaluated_Cons:
  "evaluated cfg n b (p # ps) =
     (if eligible cfg n b p then recommendation_of cfg n b p # evaluated cfg n b ps
      else evaluated cfg n b ps)"
  by (simp add: evaluated_def)

lemma recommend_for_eq:
  assumes "heap_get h self = Some (EngineObj cfg)"
    and "heap_get h products = Some (ProductList ps)"
    and "heap_get h recs = Some (RecList acc)"
  shows "recommend_for h self user_needs user_budget products recs i =
     Some (Inr (), h[recs := RecList (acc @ evaluated cfg user_needs user_budget (drop i ps))])"
  using assms
proof (induction "length ps - i" arbitrary: i h acc)
  case 0
  then have "\<not> i < length ps" by simp
  with 0 show ?case
    by (subst recommend_for.simps) (simp add: heap_update_id evaluated_def)
next
  case (Suc k)
  then have lt: "i < length ps" by simp
  have dr: "drop i ps = ps ! i # drop (Suc i) ps"
    using lt by (simp add: Cons_nth_drop_Suc)
  have k: "k = length ps - Suc i" using Suc.hyps(2) by simp
  have ne1: "self \<noteq> recs" and ne2: "products \<noteq> recs"
    using Suc.prems by auto
  show ?case
  proof (cases "eligible cfg user_needs user_budget (ps ! i)")
    case False
    have "recommend_for h self user_needs user_budget products recs i =
        recommend_for h self user_needs user_budget products recs (Suc i)"
      using lt False Suc.prems
      by (subst recommend_for.simps)
         (simp add: self_config_def evaluate_single_product_eq)
    also have "\<dots> = Some (Inr (), h[recs := RecList (acc
        @ evaluated cfg user_needs user_budget (drop (Suc i) ps))])"
      using k Suc.prems by (rule Suc.hyps(1))
    finally show ?thesis using False by (simp add: dr evaluated_Cons)
  next
    case True
    let ?r = "recommendation_of cfg user_needs user_budget (ps ! i)"
    let ?h = "h[recs := RecList (acc @ [?r])]"
    have "recommend_for h self user_needs user_budget products recs i =
        recommend_for ?h self user_needs user_budget products recs (Suc i)"
      using lt True Suc.prems
      by (subst recommend_for.simps)
         (simp add: self_config_def evaluate_single_product_eq list_append_def)
    also have "\<dots> = Some (Inr (), ?h[recs := RecList ((acc @ [?r])
        @ evaluated cfg user_needs user_budget (drop (Suc i) ps))])"
    proof (rule Suc.hyps(1) [OF k])
      show "heap_get ?h self = Some (EngineObj cfg)"
        using ne1 Suc.prems(1) by (simp add: heap_get_update_other)
      show "heap_get ?h products = Some (ProductList ps)"
        using ne2 Suc.prems(2) by (simp add: heap_get_update_other)
      show "heap_get ?h recs = Some (RecList (acc @ [?r]))"
        using Suc.prems(3) by (rule heap_get_update_same)
    qed
    finally show ?thesis using True by (simp add: dr evaluated_Cons)
  qed
qed

lemma recommend_method_eq:
  assumes "heap_get h self = Some (EngineObj cfg)"
    and "heap_get h products = Some (ProductList ps)"
  shows "recommend_method h self user_needs user_budget products =
     Some (recommend cfg user_needs user_budget ps,
           h @ [RecList (sort_key (\<lambda>r. - score r) (evaluated cfg user_needs user_budget ps))])"
proof -
  let ?h0 = "h @ [RecList []]"
  let ?E = "evaluated cfg user_needs user_budget ps"
  have ls: "self < length h" and lp: "products < length h"
    using assms by (auto simp: heap_get_def split: if_splits)
  have s0: "heap_get ?h0 self = Some (EngineObj cfg)"
    using ls assms(1) by (simp add: heap_get_append)
  have p0: "heap_get ?h0 products = Some (ProductList ps)"
    using lp assms(2) by (simp add: heap_get_append)
  have r0: "heap_get ?h0 (length h) = Some (RecList [])"
    by (simp add: heap_get_def)
  have loop: "recommend_for ?h0 self user_needs user_budget products (length h) 0 =
      Some (Inr (), h @ [RecList ?E])"
    using recommend_for_eq [OF s0 p0 r0, of user_needs user_budget 0] by simp
  have s1: "self_config (h @ [RecList (sort_key (\<lambda>r. - score r) ?E)]) self = Inr cfg"
    using ls assms(1) by (simp add: self_config_def heap_get_append)
  have fin: "sort_and_limit_method (h @ [RecList ?E]) self (length h) =
      (Inr (py_slice_to (max_recommendations cfg) (sort_key (\<lambda>r. - score r) ?E)),
       h @ [RecList (sort_key (\<lambda>r. - score r) ?E)])"
    using s1 by (simp add: sort_and_limit_method_def list_sort_by_score_def heap_get_def)
  show ?thesis
    by (simp add: recommend_method_def alloc_def loop fin recommend_eq)
qed

text \<open>
  C7. A call of recommend on an engine object and a list object of products returns; its
  result is that of the function of the configuration and the products. Every object
  that was on the heap before the call is afterwards as it was, the engine with its
  configuration and the list of products among them, and a second call with the same
  arguments on the heap that the first has left returns the same result and again
  changes none of these objects.
\<close>

theorem recommend_idempotent:
  assumes "heap_get h self = Some (EngineObj cfg)"
    and "heap_get h products = Some (ProductList ps)"
  shows "\<exists>out h1 h2.
       recommend_method h self user_needs user_budget products = Some (out, h1)
     \<and> out = recommend cfg user_needs user_budget ps
     \<and> recommend_method h1 self user_needs user_budget products = Some (out, h2)
     \<and> (\<forall>a < length h. heap_get h1 a = heap_get h a \<and> heap_get h2 a = heap_get h a)"
proof -
  let ?X = "RecList (sort_key (\<lambda>r. - score r) (evaluated cfg user_needs user_budget ps))"
  let ?out = "recommend cfg user_needs user_budget ps"
  have ls: "self < length h" and lp: "products < length h"
    using assms by (auto simp: heap_get_def split: if_splits)
  have first: "recommend_method h self user_needs user_budget products = Some (?out, h @ [?X])"
    using assms by (rule recommend_method_eq)
  have s1: "heap_get (h @ [?X]) self = Some (EngineObj cfg)"
    using ls assms(1) by (simp add: heap_get_append)
  have p1: "heap_get (h @ [?X]) products = Some (ProductList ps)"
    using lp assms(2) by (simp add: heap_get_append)
  have second: "recommend_method (h @ [?X]) self user_needs user_budget products =
      Some (?out, (h @ [?X]) @ [?X])"
    using s1 p1 by (rule recommend_method_eq)
  have keep: "\<forall>a < length h. heap_get (h @ [?X]) a = heap_get h a
      \<and> heap_get ((h @ [?X]) @ [?X]) a = heap_get h a"
    by (simp add: heap_get_def nth_append)
  from first second keep show ?thesis by blast
qed

theorem recommend_idempotent_witness:
  "heap_get example_heap 0 = Some (EngineObj get_default_config)
   \<and> heap_get example_heap 1 = Some (ProductList example_catalog)
   \<and> (\<exists>out h1 h2.
         recommend_method example_heap 0 [(''data'', 30), (''calls'', 500)] 150 1 = Some (out, h1)
       \<and> recommend_method h1 0 [(''data'', 30), (''calls'', 500)] 150 1 = Some (out, h2)
       \<and> map_sum id (map (\<lambda>r. (name (product r), score r))) out
            = Inr [(''B'', 13 / 10), (''A'', 23 / 20), (''C'', 23 / 20)]
       \<and> heap_get h1 0 = heap_get example_heap 0 \<and> heap_get h1 1 = heap_get example_heap 1
       \<and> heap_get h2 0 = heap_get example_heap 0 \<and> heap_get h2 1 = heap_get example_heap 1)"
proof -
  have e: "heap_get example_heap 0 = Some (EngineObj get_default_config)"
    and c: "heap_get example_heap 1 = Some (ProductList example_catalog)"
    by (simp_all add: example_heap_def heap_get_def)
  obtain out h1 h2
    where r1: "recommend_method example_heap 0 [(''data'', 30), (''calls'', 500)] 150 1
        = Some (out, h1)"
      and o: "out = recommend get_default_config [(''data'', 30), (''calls'', 500)] 150
        example_catalog"
      and r2: "recommend_method h1 0 [(''data'', 30), (''calls'', 500)] 150 1 = Some (out, h2)"
      and k: "\<forall>a < length example_heap.
        heap_get h1 a = heap_get example_heap a \<and> heap_get h2 a = heap_get example_heap a"
    using recommend_idempotent [OF e c, of "[(''data'', 30), (''calls'', 500)]" 150]
    by blast
  have names: "map_sum id (map (\<lambda>r. (name (product r), score r))) out
            = Inr [(''B'', 13 / 10), (''A'', 23 / 20), (''C'', 23 / 20)]"
    unfolding o by (rule recommend_example)
  have k0: "heap_get h1 0 = heap_get example_heap 0" and k1: "heap_get h1 1 = heap_get example_heap 1"
    and k2: "heap_get h2 0 = heap_get example_heap 0" and k3: "heap_get h2 1 = heap_get example_heap 1"
    using k by (simp_all add: example_heap_def)
  show ?thesis
    by (intro conjI exI [where x = out] exI [where x = h1] exI [where x = h2]; fact)
qed

subsection \<open>The diagnosis\<close>

lemma record_dict_eq:
  "dict_set (if map_of d k = None then dict_set d k [] else d) k
     (dict_get (if map_of d k = None then dict_set d k [] else d) k [] @ [p])
   = append_entry d k p"
  by (induction d) (auto simp: dict_get_def)

lemma record_insufficient_eq:
  "record_insufficient a k p = a\<lparr>insufficient_specs := append_entry (insufficient_specs a) k p\<rparr>"
  by (simp add: record_insufficient_def Let_def record_dict_eq)

lemma append_entry_nonempty:
  "list_all (\<lambda>(k, ps). ps \<noteq> []) d \<Longrightarrow> list_all (\<lambda>(k, ps). ps \<noteq> []) (append_entry d k p)"
  by (induction d) auto

lemma record_insufficient_inv:
  "entries_nonempty a \<Longrightarrow> entries_nonempty (record_insufficient a k p)"
  by (simp add: entries_nonempty_def record_insufficient_eq append_entry_nonempty)

lemma check_insufficient_loop_inv:
  "entries_nonempty a \<Longrightarrow> entries_nonempty (check_insufficient_loop user_needs product_specs p a)"
  by (induction user_needs product_specs p a rule: check_insufficient_loop.induct)
     (simp_all add: record_insufficient_inv)

lemma check_insufficient_specs_inv:
  "entries_nonempty a \<Longrightarrow>
     entries_nonempty (check_insufficient_specs cfg product_specs product_price user_needs user_budget a p)"
  by (simp add: check_insufficient_specs_def Let_def check_insufficient_loop_inv)

lemma analyze_product_mismatch_inv:
  "entries_nonempty a \<Longrightarrow>
     entries_nonempty (analyze_product_mismatch cfg products user_needs user_budget a)"
proof (induction products arbitrary: a)
  case Nil
  then show ?case by simp
next
  case (Cons p ps)
  have "entries_nonempty (a\<lparr>over_budget_products := over_budget_products a @ [p]\<rparr>)"
    using Cons.prems by (simp add: entries_nonempty_def)
  then show ?case using Cons.prems
    by (auto simp: Let_def intro!: Cons.IH check_insufficient_specs_inv)
qed

lemma py_max_eq: "xs \<noteq> [] \<Longrightarrow> py_max xs = Inr (Max (set xs))"
proof (cases xs)
  case Nil
  assume "xs \<noteq> []"
  with Nil show ?thesis by simp
next
  case (Cons x ys)
  show ?thesis unfolding Cons py_max.simps by (simp only: Max.set_eq_fold)
qed

lemma py_min_eq: "xs \<noteq> [] \<Longrightarrow> py_min xs = Inr (Min (set xs))"
proof (cases xs)
  case Nil
  assume "xs \<noteq> []"
  with Nil show ?thesis by simp
next
  case (Cons x ys)
  show ?thesis unfolding Cons py_min.simps by (simp only: Min.set_eq_fold)
qed

lemma spec_suggestions_loop_eq:
  "list_all (\<lambda>(k, ps). ps \<noteq> []) d \<Longrightarrow>
     spec_suggestions_loop d a = Inr (a\<lparr>suggestions := suggestions a @ map lower_need d\<rparr>)"
proof (induction d arbitrary: a)
  case Nil
  then show ?case by simp
next
  case (Cons e d)
  obtain k ps where e: "e = (k, ps)" by (cases e)
  with Cons.prems have ne: "ps \<noteq> []" and rest: "list_all (\<lambda>(k, ps). ps \<noteq> []) d" by simp_all
  have "py_max (map (\<lambda>p. dict_get (case specs p of None \<Rightarrow> [] | Some s \<Rightarrow> s) k 0) ps)
      = Inr (Max ((\<lambda>p. dict_get (specs_of p) k 0) ` set ps))"
    using ne by (simp add: py_max_eq inline_specs_eq)
  then show ?case using Cons.IH [OF rest]
    by (simp add: e lower_need_def)
qed

lemma generate_improvement_suggestions_eq:
  assumes "entries_nonempty a"
  shows "generate_improvement_suggestions a user_needs =
     Inr (a\<lparr>suggestions := suggestions a @ raise_budget (over_budget_products a)
                @ map lower_need (insufficient_specs a)\<rparr>)"
proof (cases "over_budget_products a = []")
  case True
  then show ?thesis using assms
    by (simp add: generate_improvement_suggestions_def err_bind_def raise_budget_def
        spec_suggestions_loop_eq entries_nonempty_def)
next
  case False
  then have "py_min (map (\<lambda>p. dict_get (case specs p of None \<Rightarrow> [] | Some s \<Rightarrow> s) ''price''
                                  (case price p of None \<Rightarrow> 0 | Some v \<Rightarrow> v))
                         (over_budget_products a))
      = Inr (Min (resolve_price ` set (over_budget_products a)))"
    by (simp add: py_min_eq inline_price_eq)
  then show ?thesis using assms False
    by (simp add: generate_improvement_suggestions_def err_bind_def raise_budget_def
        spec_suggestions_loop_eq entries_nonempty_def)
qed

lemma check_insufficient_loop_keeps:
  "over_budget_products (check_insufficient_loop user_needs product_specs p a) = over_budget_products a
   \<and> suggestions (check_insufficient_loop user_needs product_specs p a) = suggestions a"
  by (induction user_needs product_specs p a rule: check_insufficient_loop.induct)
     (simp_all add: record_insufficient_eq)

lemma analyze_product_mismatch_suggestions:
  "suggestions (analyze_product_mismatch cfg products user_needs user_budget a) = suggestions a"
  by (induction products arbitrary: a)
     (simp_all add: Let_def check_insufficient_specs_def check_insufficient_loop_keeps)

lemma analyze_no_match_reason_eq:
  "analyze_no_match_reason cfg user_needs user_budget products =
     Inr ((analyze_product_mismatch cfg products user_needs user_budget
            \<lparr> over_budget_products = [], insufficient_specs = [], suggestions = [] \<rparr>)
          \<lparr>suggestions :=
             raise_budget (over_budget_products (analyze_product_mismatch cfg products user_needs user_budget
               \<lparr> over_budget_products = [], insufficient_specs = [], suggestions = [] \<rparr>))
             @ map lower_need (insufficient_specs (analyze_product_mismatch cfg products user_needs user_budget
               \<lparr> over_budget_products = [], insufficient_specs = [], suggestions = [] \<rparr>))\<rparr>)"
proof -
  let ?init = "\<lparr> over_budget_products = [], insufficient_specs = [], suggestions = [] \<rparr>"
  have "entries_nonempty ?init" by (simp add: entries_nonempty_def)
  then have inv: "entries_nonempty (analyze_product_mismatch cfg products user_needs user_budget ?init)"
    by (rule analyze_product_mismatch_inv)
  have "analyze_no_match_reason cfg user_needs user_budget products =
      generate_improvement_suggestions
        (analyze_product_mismatch cfg products user_needs user_budget ?init) user_needs"
    by (simp add: analyze_no_match_reason_def Let_def)
  also have "\<dots> = Inr ((analyze_product_mismatch cfg products user_needs user_budget ?init)
      \<lparr>suggestions := suggestions (analyze_product_mismatch cfg products user_needs user_budget ?init)
         @ raise_budget (over_budget_products (analyze_product_mismatch cfg products user_needs user_budget ?init))
         @ map lower_need (insufficient_specs (analyze_product_mismatch cfg products user_needs user_budget ?init))\<rparr>)"
    using inv by (rule generate_improvement_suggestions_eq)
  finally show ?thesis
    by (simp only: analyze_product_mismatch_suggestions analysis.simps append_Nil)
qed

lemma analyze_example:
  "analyze_no_match_reason get_default_config [(''data'', 30), (''calls'', 500)] 150 example_catalog =
   Inr \<lparr>over_budget_products =
        [\<lparr>name = ''D'', specs = Some [(''data'', 30), (''calls'', 500), (''price'', 200)], price = None\<rparr>],
        insufficient_specs =
          [(''data'', [\<lparr>name = ''E'', specs = Some [(''data'', 10), (''calls'', 500)], price = Some 50\<rparr>])],
        suggestions = [RaiseBudget 200, LowerNeed (get_need_display_name ''data'') 10 ''GB'']\<rparr>"
  by code_simp

text \<open>
  C8. The diagnosis is returned for every input. If its list of over-budget products is
  not empty, its suggestions contain the one to raise the budget to the least price of
  these products; and for every key of its insufficient specs, the recorded list is not
  empty and the suggestions contain the one to lower that need to the greatest value that
  the recorded products have for the key (0 for a product without the key).
\<close>

theorem suggestions_cover:
  "\<exists>a. analyze_no_match_reason cfg user_needs user_budget products = Inr a
     \<and> (over_budget_products a \<noteq> [] \<longrightarrow>
          RaiseBudget (Min (resolve_price ` set (over_budget_products a))) \<in> set (suggestions a))
     \<and> (\<forall>(k, ps) \<in> set (insufficient_specs a).
          ps \<noteq> []
          \<and> LowerNeed (get_need_display_name k)
               (Max ((\<lambda>p. dict_get (specs_of p) k 0) ` set ps)) (get_need_unit k)
              \<in> set (suggestions a))"
proof -
  let ?init = "\<lparr> over_budget_products = [], insufficient_specs = [], suggestions = [] \<rparr>"
  let ?mid = "analyze_product_mismatch cfg products user_needs user_budget ?init"
  let ?fin = "?mid\<lparr>suggestions := raise_budget (over_budget_products ?mid)
                @ map lower_need (insufficient_specs ?mid)\<rparr>"
  have "entries_nonempty ?init" by (simp add: entries_nonempty_def)
  then have inv: "entries_nonempty ?mid" by (rule analyze_product_mismatch_inv)
  have res: "analyze_no_match_reason cfg user_needs user_budget products = Inr ?fin"
    by (rule analyze_no_match_reason_eq)
  have budget: "over_budget_products ?fin \<noteq> [] \<longrightarrow>
      RaiseBudget (Min (resolve_price ` set (over_budget_products ?fin))) \<in> set (suggestions ?fin)"
    by (simp add: raise_budget_def)
  have needs: "\<forall>(k, ps) \<in> set (insufficient_specs ?fin).
          ps \<noteq> []
          \<and> LowerNeed (get_need_display_name k)
               (Max ((\<lambda>p. dict_get (specs_of p) k 0) ` set ps)) (get_need_unit k)
              \<in> set (suggestions ?fin)"
  proof (clarify, intro conjI)
    fix k ps
    assume m: "(k, ps) \<in> set (insufficient_specs ?fin)"
    then have m1: "(k, ps) \<in> set (insufficient_specs ?mid)" by simp
    with inv show "ps \<noteq> []"
      by (auto simp: entries_nonempty_def list_all_iff)
    have "lower_need (k, ps) \<in> set (map lower_need (insufficient_specs ?mid))"
      using m1 by simp
    then show "LowerNeed (get_need_display_name k)
               (Max ((\<lambda>p. dict_get (specs_of p) k 0) ` set ps)) (get_need_unit k)
              \<in> set (suggestions ?fin)"
      by (simp add: lower_need_def)
  qed
  from res budget needs show ?thesis by blast
qed

theorem suggestions_cover_witness:
  "\<exists>a. analyze_no_match_reason get_default_config [(''data'', 30), (''calls'', 500)] 150 example_catalog = Inr a
     \<and> over_budget_products a \<noteq> []
     \<and> RaiseBudget 200 \<in> set (suggestions a)
     \<and> (''data'', [\<lparr>name = ''E'', specs = Some [(''data'', 10), (''calls'', 500)], price = Some 50\<rparr>])
          \<in> set (insufficient_specs a)
     \<and> LowerNeed (get_need_display_name ''data'') 10 (get_need_unit ''data'') \<in> set (suggestions a)"
proof -
  let ?D = "\<lparr>name = ''D'', specs = Some [(''data'', 30), (''calls'', 500), (''price'', 200)], price = None\<rparr>"
  let ?E = "\<lparr>name = ''E'', specs = Some [(''data'', 10), (''calls'', 500)], price = Some 50\<rparr>"
  obtain a where r: "analyze_no_match_reason get_default_config [(''data'', 30), (''calls'', 500)] 150 example_catalog = Inr a"
    and b: "over_budget_products a \<noteq> [] \<longrightarrow>
          RaiseBudget (Min (resolve_price ` set (over_budget_products a))) \<in> set (suggestions a)"
    and n: "\<forall>(k, ps) \<in> set (insufficient_specs a).
          ps \<noteq> []
          \<and> LowerNeed (get_need_display_name k)
               (Max ((\<lambda>p. dict_get (specs_of p) k 0) ` set ps)) (get_need_unit k)
              \<in> set (suggestions a)"
    using suggestions_cover [of get_default_config "[(''data'', 30), (''calls'', 500)]" 150 example_catalog]
    by blast
  have ob: "over_budget_products a = [?D]" and ins: "insufficient_specs a = [(''data'', [?E])]"
    using r unfolding analyze_example by auto
  have "RaiseBudget 200 \<in> set (suggestions a)"
    using b by (simp add: ob resolve_price_def specs_of_def)
  moreover have "LowerNeed (get_need_display_name ''data'') 10 (get_need_unit ''data'') \<in> set (suggestions a)"
    using n by (simp add: ins specs_of_def dict_get_def)
  ultimately show ?thesis using r ob ins by simp
qed

text \<open>
  C9. For an empty catalog the diagnosis is returned, nothing is raised, and its
  over-budget products, its insufficient specs and its suggestions are all empty.
\<close>

theorem analyze_empty_catalog:
  "analyze_no_match_reason cfg user_needs user_budget [] =
     Inr \<lparr> over_budget_products = [], insufficient_specs = [], suggestions = [] \<rparr>"
  by (simp add: analyze_no_match_reason_def generate_improvement_suggestions_def err_bind_def)

theorem analyze_empty_catalog_witness:
  "analyze_no_match_reason get_default_config [(''data'', 30), (''calls'', 500)] 150 [] =
     Inr \<lparr> over_budget_products = [], insufficient_specs = [], suggestions = [] \<rparr>"
  by (rule analyze_empty_catalog)

subsection \<open>One price for every path\<close>

text \<open>
  C10. recommend, the reason generator and the loop of the diagnosis all work with the
  price of the three-step fallback: the result of recommend is built from the eligibility
  and the recommendation at that price, the match reason from the price clauses at that
  price, and a step of the diagnosis from its two checks at that price. A product with no
  price anywhere has the price 0, and with a budget and a budget tolerance that are not
  negative it passes the price part of the eligibility check, so that its eligibility is
  decided by its attributes alone.
\<close>

theorem price_resolution:
  "recommend cfg user_needs user_budget products =
     Inr (sort_and_limit_recommendations cfg (evaluated cfg user_needs user_budget products))
   \<and> generate_match_reason cfg user_needs user_budget p =
       analyze_need_match_reasons cfg user_needs (specs_of p)
         @ analyze_price_reasons cfg user_budget (resolve_price p)
   \<and> analyze_product_mismatch cfg (p # products) user_needs user_budget a =
       analyze_product_mismatch cfg products user_needs user_budget
         (check_insufficient_specs cfg (specs_of p) (resolve_price p) user_needs user_budget
            (if is_over_budget_but_specs_satisfy cfg (specs_of p) user_needs (resolve_price p) user_budget
             then a\<lparr>over_budget_products := over_budget_products a @ [p]\<rparr> else a) p)
   \<and> (map_of (specs_of p) ''price'' = None \<and> price p = None \<longrightarrow> resolve_price p = 0)
   \<and> (map_of (specs_of p) ''price'' = None \<and> price p = None \<and> 0 \<le> user_budget
        \<and> 0 \<le> budget_tolerance (thresholds cfg) \<longrightarrow>
          \<not> user_budget * budget_tolerance (thresholds cfg) < resolve_price p
          \<and> eligible cfg user_needs user_budget p = check_needs user_needs (specs_of p))"
proof (intro conjI)
  show "recommend cfg user_needs user_budget products =
     Inr (sort_and_limit_recommendations cfg (evaluated cfg user_needs user_budget products))"
    by (simp add: recommend_eq sort_and_limit_recommendations_def)
  show "generate_match_reason cfg user_needs user_budget p =
       analyze_need_match_reasons cfg user_needs (specs_of p)
         @ analyze_price_reasons cfg user_budget (resolve_price p)"
    by (rule generate_match_reason_eq)
  show "analyze_product_mismatch cfg (p # products) user_needs user_budget a =
       analyze_product_mismatch cfg products user_needs user_budget
         (check_insufficient_specs cfg (specs_of p) (resolve_price p) user_needs user_budget
            (if is_over_budget_but_specs_satisfy cfg (specs_of p) user_needs (resolve_price p) user_budget
             then a\<lparr>over_budget_products := over_budget_products a @ [p]\<rparr> else a) p)"
    by (simp add: Let_def inline_specs_eq inline_price_eq2)
  show "map_of (specs_of p) ''price'' = None \<and> price p = None \<longrightarrow> resolve_price p = 0"
    by (simp add: resolve_price_def)
  show "map_of (specs_of p) ''price'' = None \<and> price p = None \<and> 0 \<le> user_budget
        \<and> 0 \<le> budget_tolerance (thresholds cfg) \<longrightarrow>
          \<not> user_budget * budget_tolerance (thresholds cfg) < resolve_price p
          \<and> eligible cfg user_needs user_budget p = check_needs user_needs (specs_of p)"
  proof (intro impI, elim conjE)
    assume np: "map_of (specs_of p) ''price'' = None" "price p = None"
      and nn: "0 \<le> user_budget" "0 \<le> budget_tolerance (thresholds cfg)"
    have z: "resolve_price p = 0" using np by (simp add: resolve_price_def)
    have "0 \<le> user_budget * budget_tolerance (thresholds cfg)"
      using nn by (rule mult_nonneg_nonneg)
    then have ok: "\<not> user_budget * budget_tolerance (thresholds cfg) < resolve_price p"
      by (simp add: z not_less)
    then show "\<not> user_budget * budget_tolerance (thresholds cfg) < resolve_price p
          \<and> eligible cfg user_needs user_budget p = check_needs user_needs (specs_of p)"
      by (simp add: eligible_def check_basic_requirements_def)
  qed
qed

theorem price_resolution_witness:
  "map_of (specs_of example_unpriced) ''price'' = None \<and> price example_unpriced = None \<and> (0 :: rat) \<le> 150
   \<and> 0 \<le> budget_tolerance (thresholds get_default_config)
   \<and> resolve_price example_unpriced = 0
   \<and> \<not> 150 * budget_tolerance (thresholds get_default_config) < resolve_price example_unpriced
   \<and> eligible get_default_config [(''data'', 30), (''calls'', 500)] 150 example_unpriced"
proof -
  have h: "map_of (specs_of example_unpriced) ''price'' = None" "price example_unpriced = None"
      "(0 :: rat) \<le> 150" "0 \<le> budget_tolerance (thresholds get_default_config)"
    by (simp_all add: example_unpriced_def specs_of_def get_default_config_def)
  have c: "check_needs [(''data'', 30), (''calls'', 500)] (specs_of example_unpriced)"
    by (simp add: example_unpriced_def specs_of_def)
  show ?thesis
    using h c price_resolution [of get_default_config "[(''data'', 30), (''calls'', 500)]" 150 "[]"
        example_unpriced
        "\<lparr> over_budget_products = [], insufficient_specs = [], suggestions = [] \<rparr>"]
    by simp
qed

end
